theory Spec2Isabelle
  imports Complex_Main
begin

section \<open>The pyramid wavefront sensor notebook\<close>

text \<open>
  The program is the tutorial notebook \<^verbatim>\<open>PyramidWFS.ipynb\<close>: a sequence of script cells
  over the optics library. The cells are modelled one by one, as functions on the
  script's variables. Three conventions hold throughout.

  \<^item> numpy's float64 arrays are lists of \<^typ>\<open>real\<close>: the arithmetic is exact, rounding
    and overflow are not modelled. Where numpy divides an array by zero it returns an
    array of NaN or infinities (with a warning, no exception); no list of reals is that
    array, so the model ends the run there with the outcome \<open>NonFinite\<close>.
  \<^item> a call into the optics library is a field of the record \<open>hcipy\<close>: the library's code
    is not part of the notebook, so the model takes it as a parameter. Every such call
    may raise, and the notebook has no \<^verbatim>\<open>try\<close>: the exception ends the run.
  \<^item> the objects the script mutates (the deformable mirror's actuators, the camera,
    numpy's random generator) are fields of the script state, next to its variables.

  The cells before the reference image (the imports, the physical constants, the pupil
  grid, the aperture, the mirror, the sensor optics and the camera) build what the later
  cells work on: in the model they are the library record and the state the run starts
  from.
\<close>

subsection \<open>Outcomes\<close>

datatype failure =
  Raised string   \<comment> \<open>an exception raised inside a library call\<close>
  | ValueError    \<comment> \<open>numpy: operands could not be broadcast together\<close>
  | IndexError    \<comment> \<open>numpy: index out of bounds\<close>
  | NonFinite     \<comment> \<open>numpy: division by zero, the result holds NaN or infinities\<close>

type_synonym 'a result = "failure + 'a"

definition then_do :: "'a result \<Rightarrow> ('a \<Rightarrow> 'b result) \<Rightarrow> 'b result" where
  "then_do m f = (case m of Inl e \<Rightarrow> Inl e | Inr x \<Rightarrow> f x)"

text \<open>\<^verbatim>\<open>for x in xs: body\<close> with no \<^verbatim>\<open>break\<close>: the body runs once per element, in order.\<close>

fun for_each :: "'a list \<Rightarrow> ('a \<Rightarrow> 's \<Rightarrow> 's result) \<Rightarrow> 's \<Rightarrow> 's result" where
  "for_each [] body s = Inr s"
| "for_each (x # xs) body s = then_do (body x s) (for_each xs body)"

subsection \<open>numpy arithmetic on one-dimensional arrays\<close>

text \<open>\<^verbatim>\<open>c * a\<close> for a Python scalar \<open>c\<close> and an array \<open>a\<close>.\<close>

definition scale :: "real \<Rightarrow> real list \<Rightarrow> real list" where
  "scale c xs = map (\<lambda>x. c * x) xs"

text \<open>\<^verbatim>\<open>a / c\<close> and \<^verbatim>\<open>a /= c\<close> for an array \<open>a\<close> and a scalar \<open>c\<close>: no check of the divisor.\<close>

definition div_scalar :: "real list \<Rightarrow> real \<Rightarrow> real list result" where
  "div_scalar xs c = (if c = 0 then Inl NonFinite else Inr (map (\<lambda>x. x / c) xs))"

text \<open>
  An elementwise operation on two arrays. numpy broadcasts an array of one element
  against the other operand; any other mismatch of the lengths raises.
\<close>

definition broadcast2 :: "(real \<Rightarrow> real \<Rightarrow> real) \<Rightarrow> real list \<Rightarrow> real list \<Rightarrow> real list result" where
  "broadcast2 f xs ys =
     (if length xs = length ys then Inr (map2 f xs ys)
      else if length ys = 1 then Inr (map (\<lambda>x. f x (hd ys)) xs)
      else if length xs = 1 then Inr (map (\<lambda>y. f (hd xs) y) ys)
      else Inl ValueError)"

definition vsub :: "real list \<Rightarrow> real list \<Rightarrow> real list result" where
  "vsub = broadcast2 (\<lambda>x y. x - y)"

text \<open>
  The variable \<^verbatim>\<open>slope\<close> starts as the Python number 0 and becomes an array at the
  first \<^verbatim>\<open>+=\<close>.
\<close>

datatype ndvalue = Scalar real | Array "real list"

text \<open>
  \<^verbatim>\<open>acc += xs\<close>. On a Python number the sum is a new array. On an array the sum is
  stored in place: \<open>xs\<close> is broadcast to the shape of \<open>acc\<close>, and a longer \<open>xs\<close> raises.
\<close>

fun iadd :: "ndvalue \<Rightarrow> real list \<Rightarrow> ndvalue result" where
  "iadd (Scalar c) xs = Inr (Array (map (\<lambda>x. c + x) xs))"
| "iadd (Array acc) xs =
     (if length xs = length acc then Inr (Array (map2 (\<lambda>a x. a + x) acc xs))
      else if length xs = 1 then Inr (Array (map (\<lambda>a. a + hd xs) acc))
      else Inl ValueError)"

text \<open>
  \<^verbatim>\<open>m.dot(v)\<close> for a matrix \<open>m\<close>, given as the list of its rows, and a vector \<open>v\<close>:
  one entry per row. There is no broadcasting here: a row of another length than \<open>v\<close>
  raises.
\<close>

definition mat_dot :: "real list list \<Rightarrow> real list \<Rightarrow> real list result" where
  "mat_dot m v =
     (if list_all (\<lambda>row. length row = length v) m
      then Inr (map (\<lambda>row. sum_list (map2 (\<lambda>a b. a * b) row v)) m)
      else Inl ValueError)"

text \<open>\<^verbatim>\<open>a = np.zeros((n,)); a[i] = v\<close>.\<close>

definition zeros_with :: "nat \<Rightarrow> nat \<Rightarrow> real \<Rightarrow> real list result" where
  "zeros_with n i v = (if i < n then Inr ((replicate n 0)[i := v]) else Inl IndexError)"

subsection \<open>The library\<close>

text \<open>
  The calls the notebook makes into the library, each with the arguments the script
  passes. \<open>'wf\<close> is the library's wavefront, \<open>'cam\<close> the state of the detector object,
  \<open>'rng\<close> the state of numpy's global random generator. A call that changes an object
  returns the object's new state. The arrays a call returns are taken to be fresh: the
  script's in-place division of an image does not reach into the camera.
\<close>

record ('wf, 'cam, 'rng) hcipy =
  new_wavefront :: "real \<Rightarrow> 'wf result"
    \<comment> \<open>\<^verbatim>\<open>Wavefront(magallen_aperture, wavelength)\<close>\<close>
  set_total_power :: "'wf \<Rightarrow> real \<Rightarrow> 'wf result"
    \<comment> \<open>\<^verbatim>\<open>wf.total_power = p\<close>\<close>
  dm_forward :: "real list \<Rightarrow> 'wf \<Rightarrow> 'wf result"
    \<comment> \<open>\<^verbatim>\<open>deformable_mirror.forward(wf)\<close>, the mirror holding the given actuators\<close>
  dm_random :: "'rng \<Rightarrow> real list \<Rightarrow> real \<Rightarrow> (real list \<times> 'rng) result"
    \<comment> \<open>\<^verbatim>\<open>deformable_mirror.random(rms)\<close>: the new actuators\<close>
  pwfs_forward :: "'wf \<Rightarrow> 'wf result"
    \<comment> \<open>\<^verbatim>\<open>pwfs.forward(wf)\<close>\<close>
  integrate :: "'cam \<Rightarrow> 'wf \<Rightarrow> real \<Rightarrow> 'cam result"
    \<comment> \<open>\<^verbatim>\<open>camera.integrate(wf, dt)\<close>\<close>
  read_out :: "'cam \<Rightarrow> (real list \<times> 'cam) result"
    \<comment> \<open>\<^verbatim>\<open>camera.read_out()\<close>\<close>
  large_poisson :: "'rng \<Rightarrow> real list \<Rightarrow> (real list \<times> 'rng) result"
    \<comment> \<open>\<^verbatim>\<open>large_poisson(image).astype(np.float)\<close>\<close>
  mode_basis_matrix :: "ndvalue list \<Rightarrow> real list list result"
    \<comment> \<open>\<^verbatim>\<open>ModeBasis(slopes).transformation_matrix\<close>\<close>
  inverse_tikhonov :: "real list list \<Rightarrow> real \<Rightarrow> real list list result"
    \<comment> \<open>\<^verbatim>\<open>inverse_tikhonov(matrix, rcond=rcond, svd=None)\<close>\<close>

subsection \<open>The script's constants\<close>

definition wavelength_wfs :: real where
  "wavelength_wfs = 842 / 10 ^ 9"

definition zero_magnitude_flux :: real where
  "zero_magnitude_flux = 39 * 10 ^ 9"

definition stellar_magnitude :: real where
  "stellar_magnitude = 0"

definition probe_amp :: real where
  "probe_amp = 1 / 100 * wavelength_wfs"

definition rcond :: real where
  "rcond = 1 / 1000"

definition leakage :: real where
  "leakage = 1 / 100"

definition gain :: real where
  "gain = 1 / 2"

subsection \<open>The script's state\<close>

record ('wf, 'cam, 'rng) notebook =
  num_modes :: nat                          \<comment> \<open>\<^verbatim>\<open>poke_centers.x.size\<close>\<close>
  deformable_mirror :: "real list"          \<comment> \<open>\<^verbatim>\<open>deformable_mirror.actuators\<close>\<close>
  camera :: 'cam
  np_random :: 'rng
  wf :: 'wf
  image_ref :: "real list"
  slopes :: "ndvalue list"
  ind :: nat
  slope :: ndvalue
  amp :: "real list"
  dm_wf :: 'wf
  wfs_wf :: 'wf
  image_var :: "real list"                  \<comment> \<open>the variable \<^verbatim>\<open>image\<close>\<close>
  reconstruction_matrix :: "real list list"
  wf_wfs :: 'wf
  loop_i :: nat                             \<comment> \<open>the variable \<^verbatim>\<open>i\<close>\<close>
  wf_dm :: 'wf
  wf_pyr :: 'wf
  wfs_image :: "real list"
  diff_image :: "real list"

subsection \<open>The reference image\<close>

text \<open>
  \<^verbatim>\<open>
  wf = Wavefront(magallen_aperture, wavelength_wfs)
  wf.total_power = 1
  camera.integrate( pwfs.forward(wf), 1)
  image_ref = camera.read_out()
  image_ref /= image_ref.sum()
  \<close>
\<close>

definition reference_cell ::
  "('wf, 'cam, 'rng) hcipy \<Rightarrow> ('wf, 'cam, 'rng) notebook \<Rightarrow> ('wf, 'cam, 'rng) notebook result" where
  "reference_cell lib s =
     then_do (new_wavefront lib wavelength_wfs) (\<lambda>w0.
     then_do (set_total_power lib w0 1) (\<lambda>w.
     then_do (pwfs_forward lib w) (\<lambda>p.
     then_do (integrate lib (camera s) p 1) (\<lambda>c1.
     then_do (read_out lib c1) (\<lambda>(img, c2).
     then_do (div_scalar img (sum_list img)) (\<lambda>ref.
     Inr (s\<lparr>wf := w, camera := c2, image_ref := ref\<rparr>)))))))"

subsection \<open>The interaction matrix\<close>

text \<open>
  \<^verbatim>\<open>
  probe_amp = 0.01 * wavelength_wfs
  slopes = []
  wf = Wavefront(magallen_aperture, wavelength_wfs)
  wf.total_power = 1
  for ind in range(num_modes):
      slope = 0
      for s in [1, -1]:
          amp = np.zeros((num_modes,))
          amp[ind] = s * probe_amp
          deformable_mirror.actuators = amp
          dm_wf = deformable_mirror.forward(wf)
          wfs_wf = pwfs.forward(dm_wf)
          camera.integrate(wfs_wf, 1)
          image = camera.read_out()
          image /= np.sum(image)
          slope += s * (image-image_ref)/(2 * probe_amp)
      slopes.append(slope)
  \<close>
  (The two lines that print the progress every tenth actuator are left out.) The body
  of the inner loop, for the sign \<open>sg\<close>:
\<close>

definition probe ::
  "('wf, 'cam, 'rng) hcipy \<Rightarrow> real \<Rightarrow> ('wf, 'cam, 'rng) notebook \<Rightarrow> ('wf, 'cam, 'rng) notebook result" where
  "probe lib sg s =
     then_do (zeros_with (num_modes s) (ind s) (sg * probe_amp)) (\<lambda>a.
     then_do (dm_forward lib a (wf s)) (\<lambda>d.
     then_do (pwfs_forward lib d) (\<lambda>p.
     then_do (integrate lib (camera s) p 1) (\<lambda>c1.
     then_do (read_out lib c1) (\<lambda>(img, c2).
     then_do (div_scalar img (sum_list img)) (\<lambda>normed.
     then_do (vsub normed (image_ref s)) (\<lambda>diff.
     then_do (div_scalar (scale sg diff) (2 * probe_amp)) (\<lambda>response.
     then_do (iadd (slope s) response) (\<lambda>acc.
     Inr (s\<lparr>amp := a, deformable_mirror := a, dm_wf := d, wfs_wf := p, camera := c2,
           image_var := normed, slope := acc\<rparr>))))))))))"

text \<open>The body of the outer loop, for the actuator \<open>k\<close>.\<close>

definition measure_mode ::
  "('wf, 'cam, 'rng) hcipy \<Rightarrow> nat \<Rightarrow> ('wf, 'cam, 'rng) notebook \<Rightarrow> ('wf, 'cam, 'rng) notebook result" where
  "measure_mode lib k s =
     then_do (for_each [1, - 1] (probe lib) (s\<lparr>ind := k, slope := Scalar 0\<rparr>)) (\<lambda>s'.
     Inr (s'\<lparr>slopes := slopes s' @ [slope s']\<rparr>))"

definition interaction_cell ::
  "('wf, 'cam, 'rng) hcipy \<Rightarrow> ('wf, 'cam, 'rng) notebook \<Rightarrow> ('wf, 'cam, 'rng) notebook result" where
  "interaction_cell lib s =
     then_do (new_wavefront lib wavelength_wfs) (\<lambda>w0.
     then_do (set_total_power lib w0 1) (\<lambda>w.
     for_each [0..<num_modes s] (measure_mode lib) (s\<lparr>slopes := [], wf := w\<rparr>)))"

subsection \<open>The reconstruction matrix\<close>

text \<open>
  \<^verbatim>\<open>
  slopes = ModeBasis(slopes)
  rcond = 1E-3
  reconstruction_matrix = inverse_tikhonov(slopes.transformation_matrix, rcond=rcond, svd=None)
  \<close>
\<close>

definition reconstruction_cell ::
  "('wf, 'cam, 'rng) hcipy \<Rightarrow> ('wf, 'cam, 'rng) notebook \<Rightarrow> ('wf, 'cam, 'rng) notebook result" where
  "reconstruction_cell lib s =
     then_do (mode_basis_matrix lib (slopes s)) (\<lambda>m.
     then_do (inverse_tikhonov lib m rcond) (\<lambda>r.
     Inr (s\<lparr>reconstruction_matrix := r\<rparr>)))"

subsection \<open>The star and the aberration\<close>

text \<open>
  \<^verbatim>\<open>
  wf_wfs = Wavefront(magallen_aperture, wavelength_wfs)
  wf_wfs.total_power = zero_magnitude_flux * 10**(-stellar_magnitude/2.5)
  deformable_mirror.random(0.1 * wavelength_wfs)
  \<close>
\<close>

definition star_cell ::
  "('wf, 'cam, 'rng) hcipy \<Rightarrow> ('wf, 'cam, 'rng) notebook \<Rightarrow> ('wf, 'cam, 'rng) notebook result" where
  "star_cell lib s =
     then_do (new_wavefront lib wavelength_wfs) (\<lambda>w0.
     then_do (set_total_power lib w0 (zero_magnitude_flux * 10 powr (- stellar_magnitude / (5 / 2)))) (\<lambda>w.
     then_do (dm_random lib (np_random s) (deformable_mirror s) (1 / 10 * wavelength_wfs)) (\<lambda>(a, r).
     Inr (s\<lparr>wf_wfs := w, deformable_mirror := a, np_random := r\<rparr>))))"

subsection \<open>The closed loop\<close>

text \<open>
  \<^verbatim>\<open>
  for i in range(10):
      wf_dm = deformable_mirror.forward(wf_wfs)
      wf_pyr = pwfs.forward(wf_dm)
      camera.integrate(wf_pyr, 1)
      wfs_image = large_poisson( camera.read_out() ).astype(np.float)
      wfs_image /= np.sum(wfs_image)
      diff_image = wfs_image-image_ref
      deformable_mirror.actuators = (1-leakage) * deformable_mirror.actuators
                                    - gain * reconstruction_matrix.dot(diff_image)
  \<close>
\<close>

definition iteration ::
  "('wf, 'cam, 'rng) hcipy \<Rightarrow> nat \<Rightarrow> ('wf, 'cam, 'rng) notebook \<Rightarrow> ('wf, 'cam, 'rng) notebook result" where
  "iteration lib i s =
     then_do (dm_forward lib (deformable_mirror s) (wf_wfs s)) (\<lambda>d.
     then_do (pwfs_forward lib d) (\<lambda>p.
     then_do (integrate lib (camera s) p 1) (\<lambda>c1.
     then_do (read_out lib c1) (\<lambda>(img, c2).
     then_do (large_poisson lib (np_random s) img) (\<lambda>(counts, r).
     then_do (div_scalar counts (sum_list counts)) (\<lambda>normed.
     then_do (vsub normed (image_ref s)) (\<lambda>diff.
     then_do (mat_dot (reconstruction_matrix s) diff) (\<lambda>md.
     then_do (vsub (scale (1 - leakage) (deformable_mirror s)) (scale gain md)) (\<lambda>a.
     Inr (s\<lparr>loop_i := i, wf_dm := d, wf_pyr := p, camera := c2, np_random := r,
           wfs_image := normed, diff_image := diff, deformable_mirror := a\<rparr>))))))))))"

definition closed_loop_cell ::
  "('wf, 'cam, 'rng) hcipy \<Rightarrow> ('wf, 'cam, 'rng) notebook \<Rightarrow> ('wf, 'cam, 'rng) notebook result" where
  "closed_loop_cell lib s = for_each [0..<10] (iteration lib) s"

subsection \<open>The whole notebook\<close>

text \<open>
  The cells in the order of the notebook. The lines that only plot, print or compute
  the displayed statistics (the optical path difference, the point spread functions,
  the Strehl ratio) assign none of the variables above; they are straight lines of
  library calls with no loop, and are left out: a run of the model is a run of the
  notebook in which those calls return.
\<close>

definition calibration ::
  "('wf, 'cam, 'rng) hcipy \<Rightarrow> ('wf, 'cam, 'rng) notebook \<Rightarrow> ('wf, 'cam, 'rng) notebook result" where
  "calibration lib s = then_do (reference_cell lib s) (interaction_cell lib)"

definition run_notebook ::
  "('wf, 'cam, 'rng) hcipy \<Rightarrow> ('wf, 'cam, 'rng) notebook \<Rightarrow> ('wf, 'cam, 'rng) notebook result" where
  "run_notebook lib s =
     then_do (calibration lib s) (\<lambda>s1.
     then_do (reconstruction_cell lib s1) (\<lambda>s2.
     then_do (star_cell lib s2) (\<lambda>s3.
     then_do (closed_loop_cell lib s3) (closed_loop_cell lib))))"

text \<open>The states a loop passes through: the state before each run of the body, and the last.\<close>

fun states_of :: "'a list \<Rightarrow> ('a \<Rightarrow> 's \<Rightarrow> 's result) \<Rightarrow> 's \<Rightarrow> 's list" where
  "states_of [] body s = [s]"
| "states_of (x # xs) body s =
     s # (case body x s of Inl e \<Rightarrow> [] | Inr s1 \<Rightarrow> states_of xs body s1)"

subsection \<open>The loop body as the five steps of the design\<close>

text \<open>
  The design describes one iteration as five steps: propagate the wavefront through the
  mirror and then through the sensor optics; integrate photon counts on the detector for
  unit exposure time; normalize the image by its total; take the difference against the
  reference image; update the actuators. Each step is written here as a function of its
  own, after the design's words, to be compared with \<open>iteration\<close>.
\<close>

definition step_propagate ::
  "('wf, 'cam, 'rng) hcipy \<Rightarrow> ('wf, 'cam, 'rng) notebook \<Rightarrow> ('wf, 'cam, 'rng) notebook result" where
  "step_propagate lib s =
     then_do (dm_forward lib (deformable_mirror s) (wf_wfs s)) (\<lambda>d.
     then_do (pwfs_forward lib d) (\<lambda>p.
     Inr (s\<lparr>wf_dm := d, wf_pyr := p\<rparr>)))"

definition step_detect ::
  "('wf, 'cam, 'rng) hcipy \<Rightarrow> ('wf, 'cam, 'rng) notebook \<Rightarrow> ('wf, 'cam, 'rng) notebook result" where
  "step_detect lib s =
     then_do (integrate lib (camera s) (wf_pyr s) 1) (\<lambda>c1.
     then_do (read_out lib c1) (\<lambda>(img, c2).
     then_do (large_poisson lib (np_random s) img) (\<lambda>(counts, r).
     Inr (s\<lparr>camera := c2, np_random := r, wfs_image := counts\<rparr>))))"

definition step_normalize :: "('wf, 'cam, 'rng) notebook \<Rightarrow> ('wf, 'cam, 'rng) notebook result" where
  "step_normalize s =
     then_do (div_scalar (wfs_image s) (sum_list (wfs_image s))) (\<lambda>normed.
     Inr (s\<lparr>wfs_image := normed\<rparr>))"

definition step_difference :: "('wf, 'cam, 'rng) notebook \<Rightarrow> ('wf, 'cam, 'rng) notebook result" where
  "step_difference s =
     then_do (vsub (wfs_image s) (image_ref s)) (\<lambda>diff.
     Inr (s\<lparr>diff_image := diff\<rparr>))"

definition step_update :: "('wf, 'cam, 'rng) notebook \<Rightarrow> ('wf, 'cam, 'rng) notebook result" where
  "step_update s =
     then_do (mat_dot (reconstruction_matrix s) (diff_image s)) (\<lambda>md.
     then_do (vsub (scale (1 - leakage) (deformable_mirror s)) (scale gain md)) (\<lambda>a.
     Inr (s\<lparr>deformable_mirror := a\<rparr>)))"

definition five_steps ::
  "('wf, 'cam, 'rng) hcipy \<Rightarrow> nat \<Rightarrow> ('wf, 'cam, 'rng) notebook \<Rightarrow> ('wf, 'cam, 'rng) notebook result" where
  "five_steps lib i s =
     then_do (step_propagate lib (s\<lparr>loop_i := i\<rparr>)) (\<lambda>s1.
     then_do (step_detect lib s1) (\<lambda>s2.
     then_do (step_normalize s2) (\<lambda>s3.
     then_do (step_difference s3) step_update)))"

subsection \<open>The response to one probe\<close>


subsection \<open>The probe loop in parts\<close>





text \<open>
  The lines of the probe body before the accumulation: the actuators, the two
  wavefronts, the camera after the read-out and the normalized image.
\<close>

definition sense ::
  "('wf, 'cam, 'rng) hcipy \<Rightarrow> real \<Rightarrow> ('wf, 'cam, 'rng) notebook \<Rightarrow>
     (real list \<times> 'wf \<times> 'wf \<times> 'cam \<times> real list) result" where
  "sense lib sg s =
     then_do (zeros_with (num_modes s) (ind s) (sg * probe_amp)) (\<lambda>a.
     then_do (dm_forward lib a (wf s)) (\<lambda>d.
     then_do (pwfs_forward lib d) (\<lambda>p.
     then_do (integrate lib (camera s) p 1) (\<lambda>c1.
     then_do (read_out lib c1) (\<lambda>(img, c2).
     then_do (div_scalar img (sum_list img)) (\<lambda>normed.
     Inr (a, d, p, c2, normed)))))))"


subsection \<open>A small instance of the library\<close>

text \<open>
  A library with two detector pixels, for running the model on concrete inputs. A
  wavefront is its power and its tilt; the mirror adds the sum of its actuators to the
  tilt; the detector splits the power between the two pixels according to the tilt; the
  photon noise moves a share of the counts, set by the generator's state, from the second
  pixel to the first.
\<close>

definition demo_lib :: "(real \<times> real, real list, nat) hcipy" where
  "demo_lib = \<lparr>
     new_wavefront = (\<lambda>wl. Inr (1, 0)),
     set_total_power = (\<lambda>w p. Inr (p, snd w)),
     dm_forward = (\<lambda>a w. Inr (fst w, snd w + sum_list a)),
     dm_random = (\<lambda>r a rms. Inr (map (\<lambda>x. rms) a, Suc r)),
     pwfs_forward = (\<lambda>w. Inr w),
     integrate = (\<lambda>c w dt. Inr (map2 (\<lambda>x y. x + y) c
        [fst w * dt * (1 + 10 ^ 6 * snd w), fst w * dt * (1 - 10 ^ 6 * snd w)])),
     read_out = (\<lambda>c. Inr (c, [0, 0])),
     large_poisson = (\<lambda>r img. Inr (case img of
         [x, y] \<Rightarrow> [x + real r * (x + y) / 100, y - real r * (x + y) / 100]
       | _ \<Rightarrow> img, Suc r)),
     mode_basis_matrix = (\<lambda>ms. Inr (map (\<lambda>m. case m of Scalar c \<Rightarrow> [c] | Array xs \<Rightarrow> xs) ms)),
     inverse_tikhonov = (\<lambda>m rc. Inr (map (\<lambda>row. map (\<lambda>x. x / sum_list (map (\<lambda>y. y * y) row)) row) m))
   \<rparr>"

text \<open>The same library behind an opaque aperture: no light reaches the detector.\<close>

definition dark_lib :: "(real \<times> real, real list, nat) hcipy" where
  "dark_lib = demo_lib\<lparr>integrate := (\<lambda>c w dt. Inr c)\<rparr>"


text \<open>The state before the first cell: one actuator, the mirror flat, the camera empty.\<close>

definition demo_start :: "(real \<times> real, real list, nat) notebook" where
  "demo_start = \<lparr>
     num_modes = 1, deformable_mirror = [0], camera = [0, 0], np_random = 0,
     wf = (0, 0), image_ref = [], slopes = [], ind = 0, slope = Scalar 0, amp = [],
     dm_wf = (0, 0), wfs_wf = (0, 0), image_var = [], reconstruction_matrix = [],
     wf_wfs = (0, 0), loop_i = 0, wf_dm = (0, 0), wf_pyr = (0, 0), wfs_image = [],
     diff_image = [] \<rparr>"

text \<open>The state after the cell of the reference image, and after the interaction matrix.\<close>

definition demo_referenced :: "(real \<times> real, real list, nat) notebook" where
  "demo_referenced = demo_start\<lparr>wf := (1, 0), camera := [0, 0], image_ref := [1 / 2, 1 / 2]\<rparr>"


text \<open>A state before the closed loop: calibrated, the mirror off by a tenth of a micron.\<close>

definition demo_ready :: "(real \<times> real, real list, nat) notebook" where
  "demo_ready = \<lparr>
     num_modes = 1, deformable_mirror = [1 / 10 ^ 7], camera = [0, 0], np_random = 0,
     wf = (1, 0), image_ref = [1 / 2, 1 / 2], slopes = [Array [500000, - 500000]],
     ind = 0, slope = Array [500000, - 500000], amp = [- (421 / 50000000000)],
     dm_wf = (1, - (421 / 50000000000)), wfs_wf = (1, - (421 / 50000000000)),
     image_var = [49579 / 100000, 50421 / 100000],
     reconstruction_matrix = [[1 / 10 ^ 6, - (1 / 10 ^ 6)]],
     wf_wfs = (1, 0), loop_i = 0, wf_dm = (0, 0), wf_pyr = (0, 0), wfs_image = [],
     diff_image = [] \<rparr>"

subsection \<open>What the closed loop leaves alone\<close>

text \<open>
  The variables and attributes that no line of the loop body assigns: every field of the
  state but the mirror's actuators, the camera, the random generator, the loop index and
  the four variables \<^verbatim>\<open>wf_dm\<close>, \<^verbatim>\<open>wf_pyr\<close>, \<^verbatim>\<open>wfs_image\<close>, \<^verbatim>\<open>diff_image\<close>.
\<close>

definition outside_loop ::
  "('wf, 'cam, 'rng) notebook \<Rightarrow>
     nat \<times> 'wf \<times> real list \<times> ndvalue list \<times> nat \<times> ndvalue \<times> real list \<times> 'wf \<times> 'wf \<times>
     real list \<times> real list list \<times> 'wf" where
  "outside_loop s = (num_modes s, wf s, image_ref s, slopes s, ind s, slope s, amp s, dm_wf s,
     wfs_wf s, image_var s, reconstruction_matrix s, wf_wfs s)"

subsection \<open>Variables and objects\<close>

text \<open>
  The state splits in two. The script's variables are assigned by the lines of the
  script. The three objects (the mirror, the camera, numpy's random generator) live
  from their creation to the end of the notebook; the library calls read and change
  what they hold. \<open>script_variables\<close> is the first part. \<open>loop_inputs\<close> is what the lines
  of the loop body read before assigning it: the three objects, the star's wavefront,
  the reference image and the reconstruction matrix. \<open>loop_outputs\<close> is what they assign
  or change.
\<close>

definition script_variables ::
  "('wf, 'cam, 'rng) notebook \<Rightarrow>
     nat \<times> 'wf \<times> real list \<times> ndvalue list \<times> nat \<times> ndvalue \<times> real list \<times> 'wf \<times> 'wf \<times>
     real list \<times> real list list \<times> 'wf \<times> nat \<times> 'wf \<times> 'wf \<times> real list \<times> real list" where
  "script_variables s = (num_modes s, wf s, image_ref s, slopes s, ind s, slope s, amp s, dm_wf s,
     wfs_wf s, image_var s, reconstruction_matrix s, wf_wfs s, loop_i s, wf_dm s, wf_pyr s,
     wfs_image s, diff_image s)"

definition loop_inputs ::
  "('wf, 'cam, 'rng) notebook \<Rightarrow> real list \<times> 'cam \<times> 'rng \<times> 'wf \<times> real list \<times> real list list" where
  "loop_inputs s = (deformable_mirror s, camera s, np_random s, wf_wfs s, image_ref s,
     reconstruction_matrix s)"

definition loop_outputs ::
  "('wf, 'cam, 'rng) notebook \<Rightarrow>
     nat \<times> 'wf \<times> 'wf \<times> 'cam \<times> 'rng \<times> real list \<times> real list \<times> real list" where
  "loop_outputs s = (loop_i s, wf_dm s, wf_pyr s, camera s, np_random s, wfs_image s,
     diff_image s, deformable_mirror s)"

section \<open>Properties\<close>

subsection \<open>Sequencing and loops\<close>

lemma then_do_Inr_iff: "then_do m f = Inr y \<longleftrightarrow> (\<exists>x. m = Inr x \<and> f x = Inr y)"
  by (cases m) (simp_all add: then_do_def)


lemma states_of_nonempty: "states_of xs body s \<noteq> []"
  by (cases xs) simp_all

lemma states_of_hd: "states_of xs body s ! 0 = s"
  by (cases xs) simp_all

lemma for_each_states:
  "for_each xs body s = Inr s' \<Longrightarrow>
     length (states_of xs body s) = Suc (length xs) \<and>
     last (states_of xs body s) = s' \<and>
     (\<forall>k<length xs. body (xs ! k) (states_of xs body s ! k) = Inr (states_of xs body s ! Suc k))"
proof (induction xs arbitrary: s)
  case Nil
  then show ?case by simp
next
  case (Cons x xs)
  from Cons.prems obtain s1 where s1: "body x s = Inr s1" and rest: "for_each xs body s1 = Inr s'"
    by (auto simp: then_do_Inr_iff)
  note ih = Cons.IH [OF rest]
  have unfold: "states_of (x # xs) body s = s # states_of xs body s1"
    using s1 by simp
  have "\<forall>k<length (x # xs). body ((x # xs) ! k) ((s # states_of xs body s1) ! k)
          = Inr ((s # states_of xs body s1) ! Suc k)"
  proof (intro allI impI)
    fix k assume k: "k < length (x # xs)"
    show "body ((x # xs) ! k) ((s # states_of xs body s1) ! k)
            = Inr ((s # states_of xs body s1) ! Suc k)"
    proof (cases k)
      case 0
      then show ?thesis using s1 by (simp add: states_of_hd)
    next
      case (Suc j)
      then show ?thesis using ih k by simp
    qed
  qed
  then show ?case
    using ih unfold by (simp add: states_of_nonempty)
qed


lemma for_each_Inr_iff:
  "for_each xs body s = Inr s' \<longleftrightarrow>
     length (states_of xs body s) = Suc (length xs) \<and> last (states_of xs body s) = s'"
proof (induction xs arbitrary: s)
  case Nil
  then show ?case by auto
next
  case (Cons x xs)
  show ?case
  proof (cases "body x s")
    case (Inl e)
    then show ?thesis by (simp add: then_do_def)
  next
    case (Inr s1)
    then show ?thesis using Cons.IH [of s1] by (simp add: then_do_def states_of_nonempty)
  qed
qed


text \<open>What no run of the body changes is the same in every state of the loop.\<close>

lemma for_each_invariant:
  assumes step: "\<And>x t t'. body x t = Inr t' \<Longrightarrow> f t' = f t"
    and k: "k < length (states_of xs body s)"
  shows "f (states_of xs body s ! k) = f s"
  using k
proof (induction xs arbitrary: s k)
  case Nil
  then show ?case by simp
next
  case (Cons x xs)
  show ?case
  proof (cases k)
    case 0
    then show ?thesis by simp
  next
    case (Suc j)
    with Cons.prems obtain s1 where s1: "body x s = Inr s1"
      by (cases "body x s") auto
    with Cons.prems Suc have "j < length (states_of xs body s1)" by simp
    from Cons.IH [OF this] have "f (states_of xs body s1 ! j) = f s1" .
    with s1 Suc step [OF s1] show ?thesis by simp
  qed
qed

lemma states_of_invariant:
  assumes "\<And>x t t'. body x t = Inr t' \<Longrightarrow> f t' = f t" and "t \<in> set (states_of xs body s)"
  shows "f t = f s"
  using assms for_each_invariant [of body f _ xs s] by (auto simp: in_set_conv_nth)

lemma range10: "[0..<10] = [0, 1, 2, 3, 4, 5, 6, 7, 8, 9]"
  by (simp add: upt_rec)

subsection \<open>Arrays\<close>

lemma sum_list_div: "sum_list (map (\<lambda>x. x / c) xs) = sum_list xs / (c::real)"
  by (induction xs) (simp_all add: add_divide_distrib)

lemma div_scalar_normalised:
  "div_scalar xs (sum_list xs) = Inr ys \<Longrightarrow> sum_list ys = 1 \<and> length ys = length xs"
  by (auto simp: div_scalar_def sum_list_div split: if_splits)

lemma map2_map_map:
  "map2 f (map g xs) (map h ys) = map2 (\<lambda>x y. f (g x) (h y)) xs ys"
  by (simp add: zip_map_map split_def)

subsection \<open>One iteration of the closed loop\<close>

lemma iteration_InrD:
  assumes "iteration lib i s = Inr s'"
  shows "\<exists>d p c1 img c2 counts r normed diff md a.
     dm_forward lib (deformable_mirror s) (wf_wfs s) = Inr d \<and>
     pwfs_forward lib d = Inr p \<and>
     integrate lib (camera s) p 1 = Inr c1 \<and>
     read_out lib c1 = Inr (img, c2) \<and>
     large_poisson lib (np_random s) img = Inr (counts, r) \<and>
     div_scalar counts (sum_list counts) = Inr normed \<and>
     vsub normed (image_ref s) = Inr diff \<and>
     mat_dot (reconstruction_matrix s) diff = Inr md \<and>
     vsub (scale (1 - leakage) (deformable_mirror s)) (scale gain md) = Inr a \<and>
     s' = s\<lparr>loop_i := i, wf_dm := d, wf_pyr := p, camera := c2, np_random := r,
           wfs_image := normed, diff_image := diff, deformable_mirror := a\<rparr>"
  using assms
  by (auto simp: iteration_def then_do_Inr_iff split: prod.splits)

lemma iteration_keeps:
  assumes "iteration lib i s = Inr s'"
  shows "reconstruction_matrix s' = reconstruction_matrix s" and "image_ref s' = image_ref s"
  using iteration_InrD [OF assms] by auto

lemma iteration_outside_loop:
  "iteration lib i s = Inr s' \<Longrightarrow> outside_loop s' = outside_loop s"
  by (auto dest!: iteration_InrD simp: outside_loop_def)

lemma loop_states_outside:
  "t \<in> set (states_of [0..<10] (iteration lib) s) \<Longrightarrow> outside_loop t = outside_loop s"
  using states_of_invariant [where body = "iteration lib" and f = outside_loop and t = t
      and xs = "[0..<10]" and s = s] iteration_outside_loop
  by blast

lemma closed_loop_last:
  assumes "closed_loop_cell lib s = Inr s'"
  shows "s' \<in> set (states_of [0..<10] (iteration lib) s)"
proof -
  from assms have "last (states_of [0..<10] (iteration lib) s) = s'"
    by (simp add: closed_loop_cell_def for_each_Inr_iff)
  then show ?thesis
    using last_in_set [OF states_of_nonempty] by metis
qed

lemma closed_loop_outside:
  "closed_loop_cell lib s = Inr s' \<Longrightarrow> outside_loop s' = outside_loop s"
  by (rule loop_states_outside [OF closed_loop_last])

subsection \<open>The cells\<close>

lemma run_notebook_InrD:
  assumes "run_notebook lib s = Inr s'"
  shows "\<exists>s1 s2 s3 s4. calibration lib s = Inr s1 \<and> reconstruction_cell lib s1 = Inr s2 \<and>
    star_cell lib s2 = Inr s3 \<and> closed_loop_cell lib s3 = Inr s4 \<and> closed_loop_cell lib s4 = Inr s'"
  using assms by (auto simp: run_notebook_def then_do_Inr_iff)

lemma reconstruction_cell_InrD:
  assumes "reconstruction_cell lib s = Inr s'"
  shows "\<exists>m r. mode_basis_matrix lib (slopes s) = Inr m \<and> inverse_tikhonov lib m rcond = Inr r \<and>
    s' = s\<lparr>reconstruction_matrix := r\<rparr>"
  using assms by (auto simp: reconstruction_cell_def then_do_Inr_iff)

lemma star_cell_InrD:
  assumes "star_cell lib s = Inr s'"
  shows "\<exists>w a r. s' = s\<lparr>wf_wfs := w, deformable_mirror := a, np_random := r\<rparr>"
  using assms by (auto simp: star_cell_def then_do_Inr_iff split: prod.splits)

subsection \<open>Runs of the small library\<close>

lemmas demo_cell_simps =
  run_notebook_def calibration_def reference_cell_def interaction_cell_def measure_mode_def
  probe_def reconstruction_cell_def star_cell_def zeros_with_def
  wavelength_wfs_def probe_amp_def rcond_def zero_magnitude_flux_def stellar_magnitude_def
  demo_start_def

lemmas demo_loop_simps =
  closed_loop_cell_def range10 iteration_def then_do_def demo_lib_def demo_ready_def
  div_scalar_def vsub_def broadcast2_def mat_dot_def scale_def leakage_def gain_def

lemma demo_ready_runs: "\<exists>s'. closed_loop_cell demo_lib demo_ready = Inr s'"
  by (simp add: demo_loop_simps)

lemma demo_reference: "reference_cell demo_lib demo_start = Inr demo_referenced"
  by (simp add: demo_referenced_def demo_cell_simps then_do_def demo_lib_def div_scalar_def)


lemma demo_calibration:
  "calibration demo_lib demo_start = Inr (demo_start\<lparr>
     deformable_mirror := [- (421 / 50000000000)], wf := (1, 0), image_ref := [1 / 2, 1 / 2],
     slopes := [Array [500000, - 500000]], slope := Array [500000, - 500000],
     amp := [- (421 / 50000000000)], dm_wf := (1, - (421 / 50000000000)),
     wfs_wf := (1, - (421 / 50000000000)), image_var := [49579 / 100000, 50421 / 100000]\<rparr>)"
  by (simp add: demo_cell_simps then_do_def demo_lib_def div_scalar_def vsub_def
      broadcast2_def scale_def)

lemma demo_notebook_runs: "\<exists>s'. run_notebook demo_lib demo_start = Inr s'"
  by (simp add: demo_cell_simps demo_loop_simps)

subsection \<open>The calibration and the random generator\<close>

lemma for_each_commute:
  assumes "\<And>x t. body x (u t) = map_sum id u (body x t)"
  shows "for_each xs body (u s) = map_sum id u (for_each xs body s)"
proof (induction xs arbitrary: s)
  case Nil
  then show ?case by simp
next
  case (Cons x xs)
  then show ?case
    by (cases "body x s") (simp_all add: assms then_do_def)
qed

lemma probe_ignores_generator:
  "probe lib sg (s\<lparr>np_random := r\<rparr>) = map_sum id (\<lambda>t. t\<lparr>np_random := r\<rparr>) (probe lib sg s)"
  by (auto simp: probe_def then_do_def split: sum.splits prod.splits)

lemma generator_update_commutes:
  "(s\<lparr>np_random := r\<rparr>)\<lparr>ind := k, slope := v\<rparr> = (s\<lparr>ind := k, slope := v\<rparr>)\<lparr>np_random := r\<rparr>"
  "(s\<lparr>np_random := r\<rparr>)\<lparr>slopes := sl, wf := w\<rparr> = (s\<lparr>slopes := sl, wf := w\<rparr>)\<lparr>np_random := r\<rparr>"
  by (cases s; simp)+

lemma measure_mode_ignores_generator:
  "measure_mode lib k (s\<lparr>np_random := r\<rparr>)
     = map_sum id (\<lambda>t. t\<lparr>np_random := r\<rparr>) (measure_mode lib k s)"
proof -
  have inner: "for_each [1, - 1] (probe lib) ((s\<lparr>ind := k, slope := Scalar 0\<rparr>)\<lparr>np_random := r\<rparr>)
      = map_sum id (\<lambda>t. t\<lparr>np_random := r\<rparr>)
          (for_each [1, - 1] (probe lib) (s\<lparr>ind := k, slope := Scalar 0\<rparr>))"
    by (rule for_each_commute) (rule probe_ignores_generator)
  have app: "Inr ((t\<lparr>np_random := r\<rparr>)\<lparr>slopes := slopes (t\<lparr>np_random := r\<rparr>) @ [slope (t\<lparr>np_random := r\<rparr>)]\<rparr>)
      = map_sum id (\<lambda>t. t\<lparr>np_random := r\<rparr>) (Inr (t\<lparr>slopes := slopes t @ [slope t]\<rparr>))"
    for t :: "('a, 'b, 'c) notebook"
    by (cases t) simp
  show ?thesis
    unfolding measure_mode_def generator_update_commutes inner
    by (cases "for_each [1, - 1] (probe lib) (s\<lparr>ind := k, slope := Scalar 0\<rparr>)")
      (simp_all only: then_do_def sum.case map_sum.simps id_apply app)
qed

lemma interaction_ignores_generator:
  "interaction_cell lib (s\<lparr>np_random := r\<rparr>)
     = map_sum id (\<lambda>t. t\<lparr>np_random := r\<rparr>) (interaction_cell lib s)"
proof -
  have loop: "for_each xs (measure_mode lib) ((s\<lparr>slopes := [], wf := w\<rparr>)\<lparr>np_random := r\<rparr>)
      = map_sum id (\<lambda>t. t\<lparr>np_random := r\<rparr>)
          (for_each xs (measure_mode lib) (s\<lparr>slopes := [], wf := w\<rparr>))" for w xs
    by (rule for_each_commute) (rule measure_mode_ignores_generator)
  have n: "num_modes (s\<lparr>np_random := r\<rparr>) = num_modes s" by simp
  show ?thesis
    unfolding interaction_cell_def generator_update_commutes loop n
    by (cases "new_wavefront lib wavelength_wfs";
        cases "set_total_power lib (projr (new_wavefront lib wavelength_wfs)) 1")
      (simp_all only: then_do_def sum.case map_sum.simps id_apply sum.sel)
qed

lemma reference_ignores_generator:
  "reference_cell lib (s\<lparr>np_random := r\<rparr>)
     = map_sum id (\<lambda>t. t\<lparr>np_random := r\<rparr>) (reference_cell lib s)"
  by (auto simp: reference_cell_def then_do_def split: sum.splits prod.splits)

subsection \<open>The two-sided slope\<close>












subsection \<open>The probe loop\<close>







lemma sense_ignores:
  "sense lib sg (s\<lparr>image_ref := r\<rparr>) = sense lib sg s"
  "sense lib sg (s\<lparr>slope := v\<rparr>) = sense lib sg s"
  by (simp_all add: sense_def)





subsection \<open>What the loop body reads\<close>

lemma iteration_reads:
  assumes "loop_inputs s = loop_inputs t"
  shows "map_sum id loop_outputs (iteration lib i s) = map_sum id loop_outputs (iteration lib i t)"
    and "\<And>s' t'. iteration lib i s = Inr s' \<Longrightarrow> iteration lib i t = Inr t' \<Longrightarrow>
           loop_inputs s' = loop_inputs t'"
  using assms
  by (auto simp: loop_inputs_def loop_outputs_def iteration_def then_do_def
      split: sum.splits prod.splits)

lemma for_each_reads:
  assumes "loop_inputs s = loop_inputs t" and "loop_outputs s = loop_outputs t"
  shows "map_sum id loop_outputs (for_each xs (iteration lib) s)
       = map_sum id loop_outputs (for_each xs (iteration lib) t)"
  using assms
proof (induction xs arbitrary: s t)
  case Nil
  then show ?case by simp
next
  case (Cons x xs)
  note h = iteration_reads [OF Cons.prems(1), of lib x]
  show ?case
  proof (cases "iteration lib x s")
    case (Inl e)
    with h(1) have "iteration lib x t = Inl e" by (cases "iteration lib x t") auto
    with Inl show ?thesis by (simp add: then_do_def)
  next
    case (Inr s1)
    with h(1) obtain t1 where t1: "iteration lib x t = Inr t1" "loop_outputs s1 = loop_outputs t1"
      by (cases "iteration lib x t") auto
    from h(2) [OF Inr t1(1)] have "loop_inputs s1 = loop_inputs t1" .
    from Cons.IH [OF this t1(2)] Inr t1(1) show ?thesis by (simp add: then_do_def)
  qed
qed

section \<open>The claims\<close>

text \<open>
  C1. In every iteration of the closed loop the actuators become \<open>(1 - leakage)\<close> times
  the previous actuators minus \<open>gain\<close> times the product of the reconstruction matrix with
  the difference image, where the difference image is the normalized sensor image (it
  sums to one) minus the reference image, \<open>leakage\<close> is 0.01 and \<open>gain\<close> is 0.5. The
  states are those the loop passes through: \<open>before\<close> is the state at the start of
  iteration \<open>k\<close>, \<open>after\<close> the state at its end. The last line spells the update out
  element by element, for a matrix with one row per actuator.
\<close>

theorem closed_loop_actuator_update:
  assumes run: "closed_loop_cell lib s = Inr s'" and k: "k < 10"
  shows "\<exists>before after md.
      before = states_of [0..<10] (iteration lib) s ! k \<and>
      after = states_of [0..<10] (iteration lib) s ! Suc k \<and>
      iteration lib k before = Inr after \<and>
      sum_list (wfs_image after) = 1 \<and>
      vsub (wfs_image after) (image_ref s) = Inr (diff_image after) \<and>
      mat_dot (reconstruction_matrix s) (diff_image after) = Inr md \<and>
      vsub (scale (1 - leakage) (deformable_mirror before)) (scale gain md)
        = Inr (deformable_mirror after) \<and>
      (length md = length (deformable_mirror before) \<longrightarrow>
         deformable_mirror after
           = map2 (\<lambda>a m. (1 - 1 / 100) * a - 1 / 2 * m) (deformable_mirror before) md)"
proof -
  let ?ss = "states_of [0..<10] (iteration lib) s"
  from run have st: "length ?ss = 11"
    "\<forall>j<10. iteration lib ([0..<10] ! j) (?ss ! j) = Inr (?ss ! Suc j)"
    using for_each_states [of "[0..<10]" "iteration lib" s s']
    by (simp_all add: closed_loop_cell_def)
  from st(2) k have step: "iteration lib k (?ss ! k) = Inr (?ss ! Suc k)"
    by (metis add.left_neutral nth_upt)
  have inv_m: "reconstruction_matrix (?ss ! k) = reconstruction_matrix s"
    using k st(1) by (intro for_each_invariant) (auto dest: iteration_keeps)
  have inv_r: "image_ref (?ss ! k) = image_ref s"
    using k st(1) by (intro for_each_invariant) (auto dest: iteration_keeps)
  from iteration_InrD [OF step] obtain counts md where
    n: "div_scalar counts (sum_list counts) = Inr (wfs_image (?ss ! Suc k))" and
    d: "vsub (wfs_image (?ss ! Suc k)) (image_ref (?ss ! k)) = Inr (diff_image (?ss ! Suc k))" and
    m: "mat_dot (reconstruction_matrix (?ss ! k)) (diff_image (?ss ! Suc k)) = Inr md" and
    a: "vsub (scale (1 - leakage) (deformable_mirror (?ss ! k))) (scale gain md)
          = Inr (deformable_mirror (?ss ! Suc k))"
    by auto
  have el: "length md = length (deformable_mirror (?ss ! k)) \<Longrightarrow>
      deformable_mirror (?ss ! Suc k)
        = map2 (\<lambda>a m. (1 - 1 / 100) * a - 1 / 2 * m) (deformable_mirror (?ss ! k)) md"
    using a
    by (simp add: vsub_def broadcast2_def scale_def leakage_def gain_def map2_map_map)
  show ?thesis
    using step div_scalar_normalised [OF n] d m a el inv_m inv_r by auto
qed

text \<open>
  On the small library, from a mirror at \<open>1e-7\<close>: the loop runs, and its first
  iteration takes the actuator to \<open>0.99 * 1e-7 - 0.5 * 1e-7\<close>.
\<close>

theorem closed_loop_actuator_update_witness:
  "(\<exists>s'. closed_loop_cell demo_lib demo_ready = Inr s') \<and> (0::nat) < 10 \<and>
   deformable_mirror (states_of [0..<10] (iteration demo_lib) demo_ready ! 0) = [1 / 10 ^ 7] \<and>
   deformable_mirror (states_of [0..<10] (iteration demo_lib) demo_ready ! Suc 0)
     = [49 / 10 ^ 9]"
proof -
  from demo_ready_runs obtain s' where run: "closed_loop_cell demo_lib demo_ready = Inr s'" ..
  have first: "states_of [0..<10] (iteration demo_lib) demo_ready ! 0 = demo_ready"
    by (rule states_of_hd)
  from closed_loop_actuator_update [OF run, of 0] obtain md where
    m: "mat_dot (reconstruction_matrix demo_ready)
          (diff_image (states_of [0..<10] (iteration demo_lib) demo_ready ! Suc 0)) = Inr md"
    and it: "iteration demo_lib 0 demo_ready
          = Inr (states_of [0..<10] (iteration demo_lib) demo_ready ! Suc 0)"
    and u: "length md = length (deformable_mirror demo_ready) \<longrightarrow>
          deformable_mirror (states_of [0..<10] (iteration demo_lib) demo_ready ! Suc 0)
            = map2 (\<lambda>a m. (1 - 1 / 100) * a - 1 / 2 * m) (deformable_mirror demo_ready) md"
    by (auto simp: first)
  have ev: "iteration demo_lib 0 demo_ready = Inr (demo_ready\<lparr>loop_i := 0,
      wf_dm := (1, 1 / 10 ^ 7), wf_pyr := (1, 1 / 10 ^ 7), camera := [0, 0], np_random := 1,
      wfs_image := [11 / 20, 9 / 20], diff_image := [1 / 20, - (1 / 20)],
      deformable_mirror := [49 / 10 ^ 9]\<rparr>)"
    by (simp add: demo_loop_simps)
  from it ev have "states_of [0..<10] (iteration demo_lib) demo_ready ! Suc 0
      = demo_ready\<lparr>loop_i := 0,
      wf_dm := (1, 1 / 10 ^ 7), wf_pyr := (1, 1 / 10 ^ 7), camera := [0, 0], np_random := 1,
      wfs_image := [11 / 20, 9 / 20], diff_image := [1 / 20, - (1 / 20)],
      deformable_mirror := [49 / 10 ^ 9]\<rparr>"
    by (metis Inr_inject)
  then have "deformable_mirror (states_of [0..<10] (iteration demo_lib) demo_ready ! Suc 0)
      = [49 / 10 ^ 9]"
    by simp
  with run first show ?thesis
    by (auto simp: demo_ready_def)
qed

text \<open>
  C2. One iteration of the loop is the five steps of the design, in their order:
  propagate the wavefront through the mirror and then through the sensor optics; expose
  the detector for unit time, read it out and draw the photon counts; divide the image by
  its total; subtract the reference image; update the actuators. Each step works on the
  state the step before it left, and a step that fails ends the iteration.
\<close>

theorem iteration_is_five_steps: "iteration lib i s = five_steps lib i s"
  by (auto simp: iteration_def five_steps_def step_propagate_def step_detect_def
      step_normalize_def step_difference_def step_update_def then_do_def
      split: sum.splits prod.splits)

text \<open>On the small library the five steps give the state that the loop body gives.\<close>

theorem iteration_is_five_steps_witness:
  "five_steps demo_lib 0 demo_ready = Inr (demo_ready\<lparr>loop_i := 0,
      wf_dm := (1, 1 / 10 ^ 7), wf_pyr := (1, 1 / 10 ^ 7), camera := [0, 0], np_random := 1,
      wfs_image := [11 / 20, 9 / 20], diff_image := [1 / 20, - (1 / 20)],
      deformable_mirror := [49 / 10 ^ 9]\<rparr>)"
proof -
  have "iteration demo_lib 0 demo_ready = Inr (demo_ready\<lparr>loop_i := 0,
      wf_dm := (1, 1 / 10 ^ 7), wf_pyr := (1, 1 / 10 ^ 7), camera := [0, 0], np_random := 1,
      wfs_image := [11 / 20, 9 / 20], diff_image := [1 / 20, - (1 / 20)],
      deformable_mirror := [49 / 10 ^ 9]\<rparr>)"
    by (simp add: demo_loop_simps)
  then show ?thesis
    by (simp only: iteration_is_five_steps [of demo_lib 0 demo_ready])
qed



text \<open>
  C4, as stated: an iteration changes only the actuator commands, the camera state and
  the per-iteration image variables. It changes more. On the small library an iteration
  moves the random generator on, since the photon counts are drawn from it; and it
  assigns the loop index and the two wavefront variables, which are no images.
\<close>

theorem iteration_changes_generator:
  "np_random demo_ready = 0 \<and>
   map_sum id np_random (iteration demo_lib 3 demo_ready) = Inr 1 \<and>
   loop_i demo_ready = 0 \<and>
   map_sum id loop_i (iteration demo_lib 3 demo_ready) = Inr 3 \<and>
   wf_dm demo_ready = (0, 0) \<and>
   map_sum id wf_dm (iteration demo_lib 3 demo_ready) = Inr (1, 1 / 10 ^ 7)"
  by (simp add: demo_loop_simps)

text \<open>
  C4, amended. The reconstruction matrix is computed once, by the cell that runs before
  the closed loop, as \<^verbatim>\<open>inverse_tikhonov\<close> of the matrix of the measured slopes with
  \<open>rcond = 1e-3\<close>. In every state that either closed-loop cell passes through, the
  reconstruction matrix is that matrix and the reference image is the one the
  calibration left; more, every field of \<open>outside_loop\<close> is as it was when the first loop
  started. So an iteration reads the two and changes nothing but the mirror's actuators,
  the state of the camera and of the random generator that the library calls go through,
  and the variables the loop body assigns (the loop index, the two wavefronts, the two
  images).
\<close>

theorem reconstruction_matrix_frame:
  assumes "run_notebook lib s = Inr s'"
  shows "\<exists>s1 s2 s3 s4 m.
    calibration lib s = Inr s1 \<and> reconstruction_cell lib s1 = Inr s2 \<and>
    star_cell lib s2 = Inr s3 \<and> closed_loop_cell lib s3 = Inr s4 \<and>
    closed_loop_cell lib s4 = Inr s' \<and>
    mode_basis_matrix lib (slopes s1) = Inr m \<and>
    inverse_tikhonov lib m (1 / 1000) = Inr (reconstruction_matrix s2) \<and>
    image_ref s2 = image_ref s1 \<and>
    (\<forall>t \<in> set (states_of [0..<10] (iteration lib) s3) \<union> set (states_of [0..<10] (iteration lib) s4).
       reconstruction_matrix t = reconstruction_matrix s2 \<and> image_ref t = image_ref s1 \<and>
       outside_loop t = outside_loop s3)"
proof -
  from run_notebook_InrD [OF assms] obtain s1 s2 s3 s4 where
    c: "calibration lib s = Inr s1" and r: "reconstruction_cell lib s1 = Inr s2" and
    st: "star_cell lib s2 = Inr s3" and l1: "closed_loop_cell lib s3 = Inr s4" and
    l2: "closed_loop_cell lib s4 = Inr s'" by blast
  from reconstruction_cell_InrD [OF r] obtain m where
    m: "mode_basis_matrix lib (slopes s1) = Inr m"
       "inverse_tikhonov lib m (1 / 1000) = Inr (reconstruction_matrix s2)"
       "image_ref s2 = image_ref s1"
    by (auto simp: rcond_def)
  from star_cell_InrD [OF st] have s3: "reconstruction_matrix s3 = reconstruction_matrix s2"
    "image_ref s3 = image_ref s2" by auto
  have o4: "outside_loop s4 = outside_loop s3" by (rule closed_loop_outside [OF l1])
  have "outside_loop t = outside_loop s3"
    if "t \<in> set (states_of [0..<10] (iteration lib) s3) \<union> set (states_of [0..<10] (iteration lib) s4)" for t
    using that o4 loop_states_outside [of t lib s3] loop_states_outside [of t lib s4] by auto
  moreover have "reconstruction_matrix t = reconstruction_matrix s3 \<and> image_ref t = image_ref s3"
    if "outside_loop t = outside_loop s3" for t
    using that by (simp add: outside_loop_def)
  ultimately show ?thesis
    using c r st l1 l2 m s3
    by - (rule exI [of _ s1], rule exI [of _ s2], rule exI [of _ s3], rule exI [of _ s4],
      rule exI [of _ m], auto)
qed

text \<open>
  On the small library the notebook runs to its end, and the state it ends in still
  holds the matrix and the reference image of the calibration.
\<close>

theorem reconstruction_matrix_frame_witness:
  "\<exists>s'. run_notebook demo_lib demo_start = Inr s' \<and>
     reconstruction_matrix s' = [[1 / 10 ^ 6, - (1 / 10 ^ 6)]] \<and> image_ref s' = [1 / 2, 1 / 2]"
proof -
  from demo_notebook_runs obtain s' where run: "run_notebook demo_lib demo_start = Inr s'" ..
  from reconstruction_matrix_frame [OF run] obtain s1 s2 s3 s4 m where all:
    "calibration demo_lib demo_start = Inr s1 \<and> reconstruction_cell demo_lib s1 = Inr s2 \<and>
     star_cell demo_lib s2 = Inr s3 \<and> closed_loop_cell demo_lib s3 = Inr s4 \<and>
     closed_loop_cell demo_lib s4 = Inr s' \<and>
     mode_basis_matrix demo_lib (slopes s1) = Inr m \<and>
     inverse_tikhonov demo_lib m (1 / 1000) = Inr (reconstruction_matrix s2) \<and>
     image_ref s2 = image_ref s1 \<and>
     (\<forall>t \<in> set (states_of [0..<10] (iteration demo_lib) s3)
             \<union> set (states_of [0..<10] (iteration demo_lib) s4).
       reconstruction_matrix t = reconstruction_matrix s2 \<and> image_ref t = image_ref s1 \<and>
       outside_loop t = outside_loop s3)"
    by (elim exE) (rule that)
  then have c: "calibration demo_lib demo_start = Inr s1" and
    m: "mode_basis_matrix demo_lib (slopes s1) = Inr m"
       "inverse_tikhonov demo_lib m (1 / 1000) = Inr (reconstruction_matrix s2)" and
    l2: "closed_loop_cell demo_lib s4 = Inr s'" and
    fr: "\<forall>t \<in> set (states_of [0..<10] (iteration demo_lib) s3)
             \<union> set (states_of [0..<10] (iteration demo_lib) s4).
       reconstruction_matrix t = reconstruction_matrix s2 \<and> image_ref t = image_ref s1 \<and>
       outside_loop t = outside_loop s3"
    by simp_all
  from c have s1: "slopes s1 = [Array [500000, - 500000]]" "image_ref s1 = [1 / 2, 1 / 2]"
    by (auto simp: demo_calibration)
  from m s1 have "reconstruction_matrix s2 = [[1 / 10 ^ 6, - (1 / 10 ^ 6)]]"
    by (auto simp: demo_lib_def)
  with fr closed_loop_last [OF l2] s1 run show ?thesis
    by auto
qed





text \<open>
  C7, as stated: nothing but the script's variables passes from one iteration or cell to
  the next, no object holds state of its own. That is not so. Two states before an
  iteration that agree on every script variable and differ only in the state of the
  random generator give different images and actuators: the generator holds what the
  draws of the iterations before left in it. And two states that agree on every script
  variable and differ only in the actuators the mirror object holds (which
  \<^verbatim>\<open>deformable_mirror.random\<close> sets inside the library, and which the second loop cell
  finds as the first left them) give different images.
\<close>

theorem objects_carry_state:
  "script_variables (demo_ready\<lparr>np_random := 5\<rparr>) = script_variables demo_ready \<and>
   map_sum id script_variables (iteration demo_lib 0 (demo_ready\<lparr>np_random := 5\<rparr>))
     \<noteq> map_sum id script_variables (iteration demo_lib 0 demo_ready) \<and>
   script_variables (demo_ready\<lparr>deformable_mirror := [0]\<rparr>) = script_variables demo_ready \<and>
   map_sum id script_variables (iteration demo_lib 0 (demo_ready\<lparr>deformable_mirror := [0]\<rparr>))
     \<noteq> map_sum id script_variables (iteration demo_lib 0 demo_ready)"
proof -
  have a: "iteration demo_lib 0 demo_ready = Inr (demo_ready\<lparr>loop_i := 0,
      wf_dm := (1, 1 / 10 ^ 7), wf_pyr := (1, 1 / 10 ^ 7), camera := [0, 0], np_random := 1,
      wfs_image := [11 / 20, 9 / 20], diff_image := [1 / 20, - (1 / 20)],
      deformable_mirror := [49 / 10 ^ 9]\<rparr>)"
    by (simp add: demo_loop_simps)
  have b: "iteration demo_lib 0 (demo_ready\<lparr>np_random := 5\<rparr>) = Inr (demo_ready\<lparr>loop_i := 0,
      wf_dm := (1, 1 / 10 ^ 7), wf_pyr := (1, 1 / 10 ^ 7), camera := [0, 0], np_random := 6,
      wfs_image := [3 / 5, 2 / 5], diff_image := [1 / 10, - (1 / 10)],
      deformable_mirror := [- (1 / 10 ^ 9)]\<rparr>)"
    by (simp add: demo_loop_simps)
  have c: "iteration demo_lib 0 (demo_ready\<lparr>deformable_mirror := [0]\<rparr>) = Inr (demo_ready\<lparr>loop_i := 0,
      wf_dm := (1, 0), wf_pyr := (1, 0), camera := [0, 0], np_random := 1,
      wfs_image := [1 / 2, 1 / 2], diff_image := [0, 0],
      deformable_mirror := [0]\<rparr>)"
    by (simp add: demo_loop_simps)
  show ?thesis
    unfolding a b c by (simp add: script_variables_def demo_ready_def)
qed

text \<open>
  C7, amended: the script's data are held in its variables, and in the three objects
  that the library calls go through. What passes from one iteration or cell to the next
  is what the mirror, the camera and the random generator hold, with the star's
  wavefront, the reference image and the reconstruction matrix, which the loop only
  reads. The variables that the loop body assigns carry nothing over: two states that
  agree on \<open>loop_inputs\<close> give the same outcome, failure or \<open>loop_outputs\<close>, for one
  iteration and for the whole loop cell, whatever the other variables hold.
\<close>

theorem loop_reads_objects:
  assumes "loop_inputs s = loop_inputs t"
  shows "map_sum id loop_outputs (iteration lib i s) = map_sum id loop_outputs (iteration lib i t) \<and>
    map_sum id loop_outputs (closed_loop_cell lib s)
      = map_sum id loop_outputs (closed_loop_cell lib t)"
proof -
  note h = iteration_reads [OF assms, of lib 0]
  have "map_sum id loop_outputs (closed_loop_cell lib s)
      = map_sum id loop_outputs (closed_loop_cell lib t)"
  proof (cases "iteration lib 0 s")
    case (Inl e)
    with h(1) have "iteration lib 0 t = Inl e" by (cases "iteration lib 0 t") auto
    with Inl show ?thesis by (simp add: closed_loop_cell_def upt_conv_Cons [of 0 10] then_do_def)
  next
    case (Inr s1)
    with h(1) obtain t1 where t1: "iteration lib 0 t = Inr t1" "loop_outputs s1 = loop_outputs t1"
      by (cases "iteration lib 0 t") auto
    from h(2) [OF Inr t1(1)] have "loop_inputs s1 = loop_inputs t1" .
    from for_each_reads [OF this t1(2), of "[1..<10]" lib] Inr t1(1) show ?thesis
      by (simp add: closed_loop_cell_def upt_conv_Cons [of 0 10] then_do_def)
  qed
  with iteration_reads(1) [OF assms] show ?thesis by simp
qed

text \<open>
  On the small library: the loop body gives the same outputs when the variables it
  assigns hold other values before.
\<close>

theorem loop_reads_objects_witness:
  "loop_inputs (demo_ready\<lparr>loop_i := 7, wfs_image := [1, 2]\<rparr>) = loop_inputs demo_ready \<and>
   map_sum id loop_outputs (iteration demo_lib 0 (demo_ready\<lparr>loop_i := 7, wfs_image := [1, 2]\<rparr>))
     = Inr (0, (1, 1 / 10 ^ 7), (1, 1 / 10 ^ 7), [0, 0], 1, [11 / 20, 9 / 20],
         [1 / 20, - (1 / 20)], [49 / 10 ^ 9])"
proof -
  have eq: "loop_inputs (demo_ready\<lparr>loop_i := 7, wfs_image := [1, 2]\<rparr>) = loop_inputs demo_ready"
    by (simp add: loop_inputs_def)
  have a: "iteration demo_lib 0 demo_ready = Inr (demo_ready\<lparr>loop_i := 0,
      wf_dm := (1, 1 / 10 ^ 7), wf_pyr := (1, 1 / 10 ^ 7), camera := [0, 0], np_random := 1,
      wfs_image := [11 / 20, 9 / 20], diff_image := [1 / 20, - (1 / 20)],
      deformable_mirror := [49 / 10 ^ 9]\<rparr>)"
    by (simp add: demo_loop_simps)
  from loop_reads_objects [OF eq, of demo_lib 0] eq show ?thesis
    by (simp add: a loop_outputs_def)
qed



text \<open>
  C9. The normalizations divide by the total of the image with no guard. When every
  pixel of the image is zero, the division is by zero: \<open>div_scalar\<close> takes its
  \<open>NonFinite\<close> branch. So the cell of the reference image ends there when the detector
  reads out an all-zero image; and so does the loop body when the detector reads out an
  all-zero image and the photon counts drawn for it are all zero, as Poisson counts of
  rate zero are.
\<close>

theorem zero_image_division:
  "((\<forall>x\<in>set img. x = 0) \<longrightarrow> div_scalar img (sum_list img) = Inl NonFinite) \<and>
   (new_wavefront lib wavelength_wfs = Inr w0 \<and> set_total_power lib w0 1 = Inr w \<and>
    pwfs_forward lib w = Inr p \<and> integrate lib (camera s) p 1 = Inr c1 \<and>
    read_out lib c1 = Inr (img, c2) \<and> (\<forall>x\<in>set img. x = 0)
      \<longrightarrow> reference_cell lib s = Inl NonFinite) \<and>
   (dm_forward lib (deformable_mirror s) (wf_wfs s) = Inr d \<and> pwfs_forward lib d = Inr q \<and>
    integrate lib (camera s) q 1 = Inr c3 \<and> read_out lib c3 = Inr (img, c4) \<and>
    (\<forall>x\<in>set img. x = 0) \<and>
    large_poisson lib (np_random s) img = Inr (counts, r) \<and> (\<forall>x\<in>set counts. x = 0)
      \<longrightarrow> iteration lib i s = Inl NonFinite)"
proof -
  have z: "sum_list xs = 0" if "\<forall>x\<in>set xs. x = 0" for xs :: "real list"
    using that by (induction xs) auto
  show ?thesis
    by (auto simp: z div_scalar_def reference_cell_def iteration_def then_do_def)
qed

text \<open>
  Behind an opaque aperture the detector reads out zeros, and both the reference cell
  and the loop body end in the division by zero.
\<close>

theorem zero_image_division_witness:
  "read_out dark_lib [0, 0] = Inr ([0, 0], [0, 0]) \<and>
   large_poisson dark_lib 0 [0, 0] = Inr ([0, 0], 1) \<and>
   reference_cell dark_lib demo_start = Inl NonFinite \<and>
   iteration dark_lib 0 demo_ready = Inl NonFinite"
proof -
  have r: "reference_cell dark_lib demo_start = Inl NonFinite"
    by (rule zero_image_division [where img = "[0, 0]" and lib = dark_lib and ?w0.0 = "(1, 0)"
          and w = "(1, 0)" and p = "(1, 0)" and s = demo_start and ?c1.0 = "[0, 0]"
          and ?c2.0 = "[0, 0]", THEN conjunct2, THEN conjunct1, THEN mp])
      (simp add: dark_lib_def demo_lib_def demo_start_def)
  have i: "iteration dark_lib 0 demo_ready = Inl NonFinite"
    by (rule zero_image_division [where img = "[0, 0]" and lib = dark_lib and s = demo_ready
          and d = "(1, 1 / 10 ^ 7)" and q = "(1, 1 / 10 ^ 7)" and ?c3.0 = "[0, 0]"
          and ?c4.0 = "[0, 0]" and counts = "[0, 0]" and r = 1,
          THEN conjunct2, THEN conjunct2, THEN mp])
      (simp add: dark_lib_def demo_lib_def demo_ready_def)
  from r i show ?thesis by (simp add: dark_lib_def demo_lib_def)
qed

text \<open>
  C10. The calibration (the reference image and the interaction matrix) never touches
  the random generator: started with any generator state \<open>r\<close> it gives what it gives
  otherwise, the generator state left as it was; in particular the same reference image
  and the same slopes, or the same failure. The closed loop draws its photon counts
  from the generator: on the small library, two runs of the loop from states that differ
  in the generator state only have different actuators after the first iteration.
\<close>

theorem calibration_deterministic_loop_random:
  "calibration lib (s\<lparr>np_random := r\<rparr>)
     = map_sum id (\<lambda>t. t\<lparr>np_random := r\<rparr>) (calibration lib s) \<and>
   map_sum id image_ref (calibration lib (s\<lparr>np_random := r\<rparr>))
     = map_sum id image_ref (calibration lib s) \<and>
   map_sum id slopes (calibration lib (s\<lparr>np_random := r\<rparr>))
     = map_sum id slopes (calibration lib s) \<and>
   deformable_mirror (states_of [0..<10] (iteration demo_lib) (demo_ready\<lparr>np_random := 5\<rparr>) ! 1)
     \<noteq> deformable_mirror (states_of [0..<10] (iteration demo_lib) demo_ready ! 1)"
proof -
  have cal: "calibration lib (s\<lparr>np_random := r\<rparr>)
     = map_sum id (\<lambda>t. t\<lparr>np_random := r\<rparr>) (calibration lib s)"
    by (cases "reference_cell lib s")
      (simp_all add: calibration_def reference_ignores_generator interaction_ignores_generator
        then_do_def)
  have a: "iteration demo_lib 0 demo_ready = Inr (demo_ready\<lparr>loop_i := 0,
      wf_dm := (1, 1 / 10 ^ 7), wf_pyr := (1, 1 / 10 ^ 7), camera := [0, 0], np_random := 1,
      wfs_image := [11 / 20, 9 / 20], diff_image := [1 / 20, - (1 / 20)],
      deformable_mirror := [49 / 10 ^ 9]\<rparr>)"
    by (simp add: demo_loop_simps)
  have b: "iteration demo_lib 0 (demo_ready\<lparr>np_random := 5\<rparr>) = Inr (demo_ready\<lparr>loop_i := 0,
      wf_dm := (1, 1 / 10 ^ 7), wf_pyr := (1, 1 / 10 ^ 7), camera := [0, 0], np_random := 6,
      wfs_image := [3 / 5, 2 / 5], diff_image := [1 / 10, - (1 / 10)],
      deformable_mirror := [- (1 / 10 ^ 9)]\<rparr>)"
    by (simp add: demo_loop_simps)
  have "deformable_mirror (states_of [0..<10] (iteration demo_lib) (demo_ready\<lparr>np_random := 5\<rparr>) ! 1)
     \<noteq> deformable_mirror (states_of [0..<10] (iteration demo_lib) demo_ready ! 1)"
    by (simp add: upt_conv_Cons [of 0 10] a b states_of_hd)
  with cal show ?thesis
    by (cases "calibration lib s") simp_all
qed

text \<open>
  The small library calibrates from the generator state 7 as from the generator state 0.
\<close>

theorem calibration_deterministic_loop_random_witness:
  "map_sum id image_ref (calibration demo_lib (demo_start\<lparr>np_random := 7\<rparr>)) = Inr [1 / 2, 1 / 2] \<and>
   map_sum id slopes (calibration demo_lib (demo_start\<lparr>np_random := 7\<rparr>))
     = Inr [Array [500000, - 500000]] \<and>
   map_sum id np_random (calibration demo_lib (demo_start\<lparr>np_random := 7\<rparr>)) = Inr 7"
  using calibration_deterministic_loop_random [where lib = demo_lib and s = demo_start and r = 7]
  by (simp add: demo_calibration)

end
